theory Spec2Isabelle
  imports Main "HOL-Library.Word" "HOL-Library.Sublist"
begin

section \<open>Strings\<close>

text \<open>
  The program is TypeScript: a string is a sequence of 16-bit code units. The three string
  operations that \<^verbatim>\<open>common/lib.ts\<close> relies on are written out on code-unit lists:
  \<^verbatim>\<open>String.prototype.trim\<close> (ECMAScript WhiteSpace and LineTerminator code units are
  removed at both ends), \<^verbatim>\<open>String.prototype.startsWith\<close> and the replacement
  \<^verbatim>\<open>url.replace(/\/$/, '')\<close>, which deletes one slash at the very end of the string.
\<close>

type_synonym code_unit = "16 word"
type_synonym jsstring = "code_unit list"

abbreviation js :: "string \<Rightarrow> jsstring" where
  "js s \<equiv> map of_char s"

definition isWhiteSpace :: "code_unit \<Rightarrow> bool" where
  "isWhiteSpace c \<longleftrightarrow>
     c \<in> {0x09, 0x0A, 0x0B, 0x0C, 0x0D, 0x20, 0xA0, 0x1680, 0x2028, 0x2029, 0x202F, 0x205F,
          0x3000, 0xFEFF}
     \<or> (0x2000 \<le> c \<and> c \<le> 0x200A)"

definition trim :: "jsstring \<Rightarrow> jsstring" where
  "trim s = rev (dropWhile isWhiteSpace (rev (dropWhile isWhiteSpace s)))"

fun startsWith :: "jsstring \<Rightarrow> jsstring \<Rightarrow> bool" where
  "startsWith s [] = True"
| "startsWith [] (c # cs) = False"
| "startsWith (x # xs) (c # cs) = (x = c \<and> startsWith xs cs)"

definition stripTrailingSlash :: "jsstring \<Rightarrow> jsstring" where
  "stripTrailingSlash u = (if u \<noteq> [] \<and> last u = 0x2F then butlast u else u)"

section \<open>Data model\<close>

text \<open>
  \<^verbatim>\<open>interface ElementData\<close> and \<^verbatim>\<open>interface LocatorData\<close>. The \<^verbatim>\<open>elements\<close> object is the
  list of its entries in the order \<^verbatim>\<open>Object.entries\<close> yields them. The code tests
  \<^verbatim>\<open>!data.elements\<close>, so the field is optional in the model although the interface declares it.
\<close>

record ElementData =
  locator :: jsstring
  expected_text :: jsstring
  description :: "jsstring option"

record LocatorData =
  elements :: "(jsstring \<times> ElementData) list option"

datatype Browser = Browser nat
datatype BrowserContext = BrowserContext nat
datatype Page = Page nat
datatype Locator = Locator nat

datatype BrowserKind = Chromium | Firefox | Webkit

text \<open>The three private fields of \<^verbatim>\<open>class PlaywrightManager\<close>, each \<^verbatim>\<open>null\<close> at construction.\<close>

record PlaywrightManager =
  browser :: "Browser option"
  browserContext :: "BrowserContext option"
  page :: "Page option"

definition new_manager :: PlaywrightManager where
  "new_manager = \<lparr>browser = None, browserContext = None, page = None\<rparr>"

text \<open>
  Exceptions. The first four arise inside the class: the \<^verbatim>\<open>throw new Error(...)\<close> of
  \<^verbatim>\<open>openUrl\<close>, the two of \<^verbatim>\<open>validateElementFromData\<close> (no page, no \<^verbatim>\<open>elements\<close> key), and
  the \<^verbatim>\<open>TypeError\<close> of reading \<^verbatim>\<open>data.elements\<close> when the loaded document is \<^verbatim>\<open>null\<close> or
  \<^verbatim>\<open>undefined\<close>. \<open>Thrown x\<close> is an exception \<open>x\<close> that came out of
  Playwright, \<^verbatim>\<open>fs\<close> or \<^verbatim>\<open>js-yaml\<close>.
\<close>

type_synonym exn = nat

datatype error =
    UnsupportedBrowserType jsstring
  | PageNotInitialized
  | ElementsKeyMissing
  | TypeError
  | Thrown exn

section \<open>The world outside the class\<close>

text \<open>
  Everything the class calls and does not define: the string builtin \<^verbatim>\<open>toLowerCase\<close>, the
  Playwright calls, \<^verbatim>\<open>fs.readFileSync\<close> and \<^verbatim>\<open>yaml.load\<close>. A call that can reject or throw
  returns the exception on the left. The answers depend on the arguments only.
\<close>

record engine =
  toLowerCase :: "jsstring \<Rightarrow> jsstring"
  launch :: "BrowserKind \<Rightarrow> exn + Browser"
  newContext :: "Browser \<Rightarrow> exn + BrowserContext"
  newPage :: "BrowserContext \<Rightarrow> exn + Page"
  goto :: "Page \<Rightarrow> jsstring \<Rightarrow> exn option"
  waitForLoadState :: "Page \<Rightarrow> exn option"
  waitForTimeout :: "Page \<Rightarrow> exn option"
  url :: "Page \<Rightarrow> jsstring"
  closePage :: "Page \<Rightarrow> exn option"
  closeContext :: "BrowserContext \<Rightarrow> exn option"
  closeBrowser :: "Browser \<Rightarrow> exn option"
  locator_first :: "Page \<Rightarrow> jsstring \<Rightarrow> exn + Locator"
  isVisible :: "Locator \<Rightarrow> exn + bool"
  textContent :: "Locator \<Rightarrow> exn + jsstring option"
  readFileSync :: "jsstring \<Rightarrow> exn + jsstring"
  yaml_load :: "jsstring \<Rightarrow> exn + LocatorData option"

text \<open>
  What an observer sees: every call that acquires or releases a resource or drives the
  page (recorded when it is made, whether it succeeds or not) and every console line.
\<close>

datatype line =
    NavigatingTo jsstring
  | UrlWarning jsstring jsstring
  | NavigatedTo jsstring
  | ErrorOpening jsstring error
  | ValidatingCount nat
  | ValidatingLine jsstring
  | LocatorLine jsstring
  | ExpectedLine jsstring
  | NotVisibleLine jsstring
  | SuccessLine jsstring
  | MismatchLine jsstring
  | MismatchExpected jsstring
  | MismatchActual jsstring
  | FailedLine jsstring error
  | RuleLine
  | AllPassedLine
  | SomeFailedLine
  | ErrorValidating error
  | BrowserClosedLine
  | TeardownErrorLine error

datatype event =
    Launch BrowserKind
  | NewContext Browser
  | NewPage BrowserContext
  | Goto Page jsstring
  | WaitForLoadState Page
  | WaitForTimeout Page
  | ClosePage Page
  | CloseContext BrowserContext
  | CloseBrowser Browser
  | ConsoleLog line
  | ConsoleError line

text \<open>A method call yields its result or exception, the manager's fields afterwards, and the events.\<close>

type_synonym 'a run = "(error + 'a) \<times> PlaywrightManager \<times> event list"

definition result :: "'a run \<Rightarrow> error + 'a" where
  "result r = fst r"

definition state :: "'a run \<Rightarrow> PlaywrightManager" where
  "state r = fst (snd r)"

definition trace :: "'a run \<Rightarrow> event list" where
  "trace r = snd (snd r)"

section \<open>teardown\<close>

text \<open>
  The three guarded blocks of \<^verbatim>\<open>teardown\<close>, each giving the exception that left it (if any),
  the fields and the events. A field is set to \<^verbatim>\<open>null\<close> only after its \<^verbatim>\<open>close()\<close> resolved.
\<close>

definition teardown_page :: "engine \<Rightarrow> PlaywrightManager \<Rightarrow> exn option \<times> PlaywrightManager \<times> event list" where
  "teardown_page E m =
     (case page m of
        None \<Rightarrow> (None, m, [])
      | Some p \<Rightarrow>
          (case closePage E p of
             Some x \<Rightarrow> (Some x, m, [ClosePage p])
           | None \<Rightarrow> (None, m\<lparr>page := None\<rparr>, [ClosePage p])))"

definition teardown_context :: "engine \<Rightarrow> PlaywrightManager \<Rightarrow> exn option \<times> PlaywrightManager \<times> event list" where
  "teardown_context E m =
     (case browserContext m of
        None \<Rightarrow> (None, m, [])
      | Some c \<Rightarrow>
          (case closeContext E c of
             Some x \<Rightarrow> (Some x, m, [CloseContext c])
           | None \<Rightarrow> (None, m\<lparr>browserContext := None\<rparr>, [CloseContext c])))"

definition teardown_browser :: "engine \<Rightarrow> PlaywrightManager \<Rightarrow> exn option \<times> PlaywrightManager \<times> event list" where
  "teardown_browser E m =
     (case browser m of
        None \<Rightarrow> (None, m, [])
      | Some b \<Rightarrow>
          (case closeBrowser E b of
             Some x \<Rightarrow> (Some x, m, [CloseBrowser b])
           | None \<Rightarrow> (None, m\<lparr>browser := None\<rparr>, [CloseBrowser b])))"

text \<open>
  \<^verbatim>\<open>teardown\<close>: the three blocks sit in one \<^verbatim>\<open>try\<close>; its \<^verbatim>\<open>catch\<close> prints the exception with
  \<^verbatim>\<open>console.error\<close> and the method returns.
\<close>

definition teardown :: "engine \<Rightarrow> PlaywrightManager \<Rightarrow> unit run" where
  "teardown E m =
     (case teardown_page E m of
        (Some x, m1, t1) \<Rightarrow> (Inr (), m1, t1 @ [ConsoleError (TeardownErrorLine (Thrown x))])
      | (None, m1, t1) \<Rightarrow>
          (case teardown_context E m1 of
             (Some x, m2, t2) \<Rightarrow>
               (Inr (), m2, t1 @ t2 @ [ConsoleError (TeardownErrorLine (Thrown x))])
           | (None, m2, t2) \<Rightarrow>
               (case teardown_browser E m2 of
                  (Some x, m3, t3) \<Rightarrow>
                    (Inr (), m3, t1 @ t2 @ t3 @ [ConsoleError (TeardownErrorLine (Thrown x))])
                | (None, m3, t3) \<Rightarrow>
                    (Inr (), m3, t1 @ t2 @ t3 @ [ConsoleLog BrowserClosedLine]))))"

section \<open>openUrl\<close>

text \<open>The \<^verbatim>\<open>switch\<close> on the lower-cased browser type; \<open>None\<close> is its \<^verbatim>\<open>default\<close> branch.\<close>

definition browserKindOf :: "jsstring \<Rightarrow> BrowserKind option" where
  "browserKindOf s =
     (if s = js ''chromium'' then Some Chromium
      else if s = js ''firefox'' then Some Firefox
      else if s = js ''webkit'' then Some Webkit
      else None)"

text \<open>
  From \<^verbatim>\<open>console.log(`Navigating to: ...`)\<close> to the URL check: \<^verbatim>\<open>goto\<close>, the two waits, then
  the warning or the success line. The check throws nothing.
\<close>

definition navigate :: "engine \<Rightarrow> Page \<Rightarrow> jsstring \<Rightarrow> error option \<times> event list" where
  "navigate E p u =
     (case goto E p u of
        Some x \<Rightarrow> (Some (Thrown x), [ConsoleLog (NavigatingTo u), Goto p u])
      | None \<Rightarrow>
          (case waitForLoadState E p of
             Some x \<Rightarrow>
               (Some (Thrown x), [ConsoleLog (NavigatingTo u), Goto p u, WaitForLoadState p])
           | None \<Rightarrow>
               (case waitForTimeout E p of
                  Some x \<Rightarrow>
                    (Some (Thrown x),
                     [ConsoleLog (NavigatingTo u), Goto p u, WaitForLoadState p, WaitForTimeout p])
                | None \<Rightarrow>
                    (let currentUrl = url E p in
                     (None,
                      [ConsoleLog (NavigatingTo u), Goto p u, WaitForLoadState p, WaitForTimeout p,
                       ConsoleLog
                         (if \<not> startsWith currentUrl (stripTrailingSlash u)
                          then UrlWarning currentUrl u
                          else NavigatedTo currentUrl)])))))"

text \<open>The body of the \<^verbatim>\<open>try\<close> of \<^verbatim>\<open>openUrl\<close>; the argument is the browser type actually passed.\<close>

definition openUrl_try :: "engine \<Rightarrow> PlaywrightManager \<Rightarrow> jsstring \<Rightarrow> jsstring \<Rightarrow> Page run" where
  "openUrl_try E m u browserType =
     (case browserKindOf (toLowerCase E browserType) of
        None \<Rightarrow> (Inl (UnsupportedBrowserType browserType), m, [])
      | Some k \<Rightarrow>
          (case launch E k of
             Inl x \<Rightarrow> (Inl (Thrown x), m, [Launch k])
           | Inr b \<Rightarrow>
               (case newContext E b of
                  Inl x \<Rightarrow> (Inl (Thrown x), m\<lparr>browser := Some b\<rparr>, [Launch k, NewContext b])
                | Inr c \<Rightarrow>
                    (case newPage E c of
                       Inl x \<Rightarrow>
                         (Inl (Thrown x), m\<lparr>browser := Some b, browserContext := Some c\<rparr>,
                          [Launch k, NewContext b, NewPage c])
                     | Inr p \<Rightarrow>
                         (case navigate E p u of
                            (Some e, t) \<Rightarrow>
                              (Inl e,
                               m\<lparr>browser := Some b, browserContext := Some c, page := Some p\<rparr>,
                               [Launch k, NewContext b, NewPage c] @ t)
                          | (None, t) \<Rightarrow>
                              (Inr p,
                               m\<lparr>browser := Some b, browserContext := Some c, page := Some p\<rparr>,
                               [Launch k, NewContext b, NewPage c] @ t))))))"

text \<open>
  \<^verbatim>\<open>openUrl\<close>: on an exception the \<^verbatim>\<open>catch\<close> prints it, awaits \<^verbatim>\<open>teardown\<close> and throws the
  same exception again (an exception out of \<^verbatim>\<open>teardown\<close> would replace it).
\<close>

definition openUrl :: "engine \<Rightarrow> PlaywrightManager \<Rightarrow> jsstring \<Rightarrow> jsstring \<Rightarrow> Page run" where
  "openUrl E m u browserType =
     (case openUrl_try E m u browserType of
        (Inr p, m1, t1) \<Rightarrow> (Inr p, m1, t1)
      | (Inl e, m1, t1) \<Rightarrow>
          (case teardown E m1 of
             (Inl e', m2, t2) \<Rightarrow> (Inl e', m2, t1 @ [ConsoleError (ErrorOpening u e)] @ t2)
           | (Inr _, m2, t2) \<Rightarrow> (Inl e, m2, t1 @ [ConsoleError (ErrorOpening u e)] @ t2)))"

section \<open>validateElementFromData\<close>

text \<open>\<^verbatim>\<open>(await element.textContent())?.trim() || ''\<close>\<close>

definition actualTextOf :: "jsstring option \<Rightarrow> jsstring" where
  "actualTextOf tc =
     (case map_option trim tc of None \<Rightarrow> [] | Some s \<Rightarrow> (if s = [] then [] else s))"

text \<open>
  One iteration of the \<^verbatim>\<open>for\<close> loop with its own \<^verbatim>\<open>try\<close>/\<^verbatim>\<open>catch\<close>. The boolean is \<open>False\<close>
  exactly when the iteration executes \<^verbatim>\<open>allPassed = false\<close>.
\<close>

definition validate_element :: "engine \<Rightarrow> Page \<Rightarrow> jsstring \<Rightarrow> ElementData \<Rightarrow> bool \<times> event list" where
  "validate_element E p elementName elementData =
     (let descr = (case description elementData of None \<Rightarrow> elementName | Some s \<Rightarrow> s);
          label = (case description elementData of
                     None \<Rightarrow> elementName
                   | Some s \<Rightarrow> (if s = [] then elementName else s));
          header = [ConsoleLog (ValidatingLine descr),
                    ConsoleLog (LocatorLine (locator elementData)),
                    ConsoleLog (ExpectedLine (expected_text elementData))];
          caught = (\<lambda>x. (False, header @ [ConsoleLog (FailedLine label (Thrown x))]))
      in case locator_first E p (locator elementData) of
           Inl x \<Rightarrow> caught x
         | Inr element \<Rightarrow>
             (case isVisible E element of
                Inl x \<Rightarrow> caught x
              | Inr visible \<Rightarrow>
                  (if \<not> visible then (False, header @ [ConsoleLog (NotVisibleLine descr)])
                   else
                     (case textContent E element of
                        Inl x \<Rightarrow> caught x
                      | Inr tc \<Rightarrow>
                          (let actualText = actualTextOf tc in
                           if actualText = expected_text elementData
                           then (True, header @ [ConsoleLog (SuccessLine actualText)])
                           else (False,
                                 header @
                                 [ConsoleLog (MismatchLine descr),
                                  ConsoleLog (MismatchExpected (expected_text elementData)),
                                  ConsoleLog (MismatchActual actualText)]))))))"

text \<open>The \<^verbatim>\<open>for\<close> loop over \<^verbatim>\<open>Object.entries(elements)\<close>, carrying \<^verbatim>\<open>allPassed\<close>.\<close>

fun validate_loop :: "engine \<Rightarrow> Page \<Rightarrow> (jsstring \<times> ElementData) list \<Rightarrow> bool \<Rightarrow> bool \<times> event list" where
  "validate_loop E p [] allPassed = (allPassed, [])"
| "validate_loop E p ((elementName, elementData) # rest) allPassed =
     (case validate_element E p elementName elementData of
        (ok, t) \<Rightarrow>
          (case validate_loop E p rest (if ok then allPassed else False) of
             (r, t') \<Rightarrow> (r, t @ t')))"

text \<open>The body of the outer \<^verbatim>\<open>try\<close>: read the file, load the YAML, check the key, run the loop.\<close>

definition validate_try :: "engine \<Rightarrow> Page \<Rightarrow> jsstring \<Rightarrow> (error + bool) \<times> event list" where
  "validate_try E p yamlFilePath =
     (case readFileSync E yamlFilePath of
        Inl x \<Rightarrow> (Inl (Thrown x), [])
      | Inr fileContent \<Rightarrow>
          (case yaml_load E fileContent of
             Inl x \<Rightarrow> (Inl (Thrown x), [])
           | Inr None \<Rightarrow> (Inl TypeError, [])
           | Inr (Some data) \<Rightarrow>
               (case elements data of
                  None \<Rightarrow> (Inl ElementsKeyMissing, [])
                | Some es \<Rightarrow>
                    (case validate_loop E p es True of
                       (allPassed, t) \<Rightarrow>
                         (Inr allPassed,
                          [ConsoleLog (ValidatingCount (length es))] @ t @
                          [ConsoleLog RuleLine,
                           ConsoleLog (if allPassed then AllPassedLine else SomeFailedLine),
                           ConsoleLog RuleLine])))))"

text \<open>
  \<^verbatim>\<open>validateElementFromData\<close>: the guard on \<^verbatim>\<open>this.page\<close> is outside the \<^verbatim>\<open>try\<close>; the outer
  \<^verbatim>\<open>catch\<close> prints the exception and returns \<^verbatim>\<open>false\<close>.
\<close>

definition validateElementFromData :: "engine \<Rightarrow> PlaywrightManager \<Rightarrow> jsstring \<Rightarrow> bool run" where
  "validateElementFromData E m yamlFilePath =
     (case page m of
        None \<Rightarrow> (Inl PageNotInitialized, m, [])
      | Some p \<Rightarrow>
          (case validate_try E p yamlFilePath of
             (Inl e, t) \<Rightarrow> (Inr False, m, t @ [ConsoleError (ErrorValidating e)])
           | (Inr b, t) \<Rightarrow> (Inr b, m, t)))"

section \<open>What the specification speaks about\<close>

text \<open>
  The specification gives every assertion an outcome with one of four statuses. The code
  keeps no such record: it prints one report line per element. \<open>outcomes\<close> reads the
  statuses back from the printed lines (success, not visible, text mismatch, failed to validate).
\<close>

datatype status = Matched | NotVisible | TextMismatch | ResolutionError

definition status_of_event :: "event \<Rightarrow> status option" where
  "status_of_event ev =
     (case ev of
        ConsoleLog (SuccessLine _) \<Rightarrow> Some Matched
      | ConsoleLog (NotVisibleLine _) \<Rightarrow> Some NotVisible
      | ConsoleLog (MismatchLine _) \<Rightarrow> Some TextMismatch
      | ConsoleLog (FailedLine _ _) \<Rightarrow> Some ResolutionError
      | _ \<Rightarrow> None)"

definition outcomes :: "event list \<Rightarrow> status list" where
  "outcomes t = List.map_filter status_of_event t"

text \<open>
  The per-assertion algorithm in the specification's words: resolution that throws is a
  \<open>ResolutionError\<close>; an element that is not visible is \<open>NotVisible\<close>; otherwise the trimmed
  text content is compared with the expected text. It is compared with the loop of the
  code below (\<open>validate_element_outcomes\<close>).
\<close>

definition spec_outcome :: "engine \<Rightarrow> Page \<Rightarrow> ElementData \<Rightarrow> status" where
  "spec_outcome E p a =
     (case locator_first E p (locator a) of
        Inl _ \<Rightarrow> ResolutionError
      | Inr el \<Rightarrow>
          (case isVisible E el of
             Inl _ \<Rightarrow> ResolutionError
           | Inr v \<Rightarrow>
               (if \<not> v then NotVisible
                else (case textContent E el of
                        Inl _ \<Rightarrow> ResolutionError
                      | Inr tc \<Rightarrow>
                          (if actualTextOf tc = expected_text a then Matched else TextMismatch)))))"

text \<open>Acquisitions and releases among the events; the releases a manager owes, in order.\<close>

definition is_acquisition :: "event \<Rightarrow> bool" where
  "is_acquisition ev =
     (case ev of Launch _ \<Rightarrow> True | NewContext _ \<Rightarrow> True | NewPage _ \<Rightarrow> True | _ \<Rightarrow> False)"

definition is_release :: "event \<Rightarrow> bool" where
  "is_release ev =
     (case ev of ClosePage _ \<Rightarrow> True | CloseContext _ \<Rightarrow> True | CloseBrowser _ \<Rightarrow> True
      | _ \<Rightarrow> False)"

definition releases :: "event list \<Rightarrow> event list" where
  "releases t = filter is_release t"

definition due_releases :: "PlaywrightManager \<Rightarrow> event list" where
  "due_releases m =
     (case page m of None \<Rightarrow> [] | Some p \<Rightarrow> [ClosePage p]) @
     (case browserContext m of None \<Rightarrow> [] | Some c \<Rightarrow> [CloseContext c]) @
     (case browser m of None \<Rightarrow> [] | Some b \<Rightarrow> [CloseBrowser b])"

definition release_fails :: "engine \<Rightarrow> event \<Rightarrow> bool" where
  "release_fails E ev =
     (case ev of
        ClosePage p \<Rightarrow> closePage E p \<noteq> None
      | CloseContext c \<Rightarrow> closeContext E c \<noteq> None
      | CloseBrowser b \<Rightarrow> closeBrowser E b \<noteq> None
      | _ \<Rightarrow> False)"

definition all_null :: "PlaywrightManager \<Rightarrow> bool" where
  "all_null m \<longleftrightarrow> page m = None \<and> browserContext m = None \<and> browser m = None"

text \<open>The nesting of the three fields that the specification requires.\<close>

definition nested :: "PlaywrightManager \<Rightarrow> bool" where
  "nested m \<longleftrightarrow>
     (page m \<noteq> None \<longrightarrow> browserContext m \<noteq> None) \<and>
     (browserContext m \<noteq> None \<longrightarrow> browser m \<noteq> None)"

text \<open>
  A call of \<^verbatim>\<open>openUrl\<close> that failed with \<open>e\<close> after tearing down the fields \<open>partial\<close>: the
  exception is \<open>e\<close>; the events end with the error line followed by the teardown, and the
  fields are what that teardown leaves. The releases of the whole call are an initial part
  of the releases owed for \<open>partial\<close>, in the order page, context, browser; a release that
  fails is the last one; and when none fails every release owed is made and all fields are
  \<^verbatim>\<open>null\<close>.
\<close>

definition fails_after_teardown ::
  "engine \<Rightarrow> jsstring \<Rightarrow> PlaywrightManager \<Rightarrow> error \<Rightarrow> Page run \<Rightarrow> bool" where
  "fails_after_teardown E u partial e r \<longleftrightarrow>
     result r = Inl e \<and>
     state r = state (teardown E partial) \<and>
     suffix (ConsoleError (ErrorOpening u e) # trace (teardown E partial)) (trace r) \<and>
     releases (trace r) = releases (trace (teardown E partial)) \<and>
     prefix (releases (trace r)) (due_releases partial) \<and>
     (\<forall>ev \<in> set (releases (trace r)). release_fails E ev \<longrightarrow> last (releases (trace r)) = ev) \<and>
     ((\<forall>ev \<in> set (due_releases partial). \<not> release_fails E ev) \<longrightarrow>
        releases (trace r) = due_releases partial \<and> all_null (state r))"

text \<open>
  The URL comparison in the specification's words: the resolved and the requested URL are
  the same once a trailing slash is ignored.
\<close>

definition same_ignoring_trailing_slash :: "jsstring \<Rightarrow> jsstring \<Rightarrow> bool" where
  "same_ignoring_trailing_slash a b \<longleftrightarrow> stripTrailingSlash a = stripTrailingSlash b"

section \<open>A sample world\<close>

text \<open>
  A concrete engine on which the theorems are run. Its page has a visible sign-up link whose
  text is padded with blanks, a visible headline with a doubled inner blank and a hidden
  menu; every other selector throws. Four declaration files exist: one with four elements,
  one with the first of them only, one with the second only (its selector throws), one
  without the \<^verbatim>\<open>elements\<close> key.
\<close>

definition ascii_lower :: "jsstring \<Rightarrow> jsstring" where
  "ascii_lower s = map (\<lambda>c. if 0x41 \<le> c \<and> c \<le> 0x5A then c + 0x20 else c) s"

definition sample_elements :: "(jsstring \<times> ElementData) list" where
  "sample_elements =
     [(js ''signup'', \<lparr>locator = js ''a.signup'', expected_text = js ''Create Your Account'',
                       description = Some (js ''Create Your Account button'')\<rparr>),
      (js ''broken'', \<lparr>locator = js ''a[['', expected_text = js ''X'', description = None\<rparr>),
      (js ''menu'', \<lparr>locator = js ''#menu'', expected_text = js ''Menu'', description = None\<rparr>),
      (js ''headline'', \<lparr>locator = js ''h1'', expected_text = js ''Create Your Account'',
                         description = Some []\<rparr>)]"

definition sample_engine :: engine where
  "sample_engine =
     \<lparr>toLowerCase = ascii_lower,
      launch = (\<lambda>k. Inr (Browser 1)),
      newContext = (\<lambda>b. Inr (BrowserContext 1)),
      newPage = (\<lambda>c. Inr (Page 1)),
      goto = (\<lambda>p u. None),
      waitForLoadState = (\<lambda>p. None),
      waitForTimeout = (\<lambda>p. None),
      url = (\<lambda>p. js ''https://tophat.com/pricing''),
      closePage = (\<lambda>p. None),
      closeContext = (\<lambda>c. None),
      closeBrowser = (\<lambda>b. None),
      locator_first = (\<lambda>p sel.
         if sel = js ''a.signup'' then Inr (Locator 1)
         else if sel = js ''h1'' then Inr (Locator 2)
         else if sel = js ''#menu'' then Inr (Locator 3)
         else Inl 9),
      isVisible = (\<lambda>l. Inr (l \<noteq> Locator 3)),
      textContent = (\<lambda>l.
         if l = Locator 1 then Inr (Some (js '' Create Your Account ''))
         else if l = Locator 2 then Inr (Some (js ''Create  Your Account''))
         else Inr None),
      readFileSync = (\<lambda>f.
         if f = js ''locator.yaml'' then Inr (js ''all'')
         else if f = js ''one.yaml'' then Inr (js ''one'')
         else if f = js ''nokey.yaml'' then Inr (js ''nokey'')
         else if f = js ''broken.yaml'' then Inr (js ''broken'')
         else Inl 2),
      yaml_load = (\<lambda>s.
         if s = js ''all'' then Inr (Some \<lparr>elements = Some sample_elements\<rparr>)
         else if s = js ''one'' then Inr (Some \<lparr>elements = Some (take 1 sample_elements)\<rparr>)
         else if s = js ''nokey'' then Inr (Some \<lparr>elements = None\<rparr>)
         else if s = js ''broken'' then
           Inr (Some \<lparr>elements = Some (take 1 (drop 1 sample_elements))\<rparr>)
         else Inl 3)\<rparr>"

definition open_manager :: PlaywrightManager where
  "open_manager =
     \<lparr>browser = Some (Browser 1), browserContext = Some (BrowserContext 1), page = Some (Page 1)\<rparr>"

text \<open>The same engine, except that closing a page is rejected.\<close>

definition stuck_page_engine :: engine where
  "stuck_page_engine = sample_engine\<lparr>closePage := (\<lambda>p. Some 7)\<rparr>"

text \<open>The engine on which both the navigation and the closing of a page are rejected.\<close>

definition unreachable_stuck_engine :: engine where
  "unreachable_stuck_engine = stuck_page_engine\<lparr>goto := (\<lambda>p u. Some 6)\<rparr>"

lemmas sample_defs = sample_engine_def sample_elements_def open_manager_def new_manager_def
  stuck_page_engine_def unreachable_stuck_engine_def ascii_lower_def
lemmas run_defs = result_def state_def trace_def
lemmas validate_defs = validateElementFromData_def validate_try_def validate_element_def
  actualTextOf_def trim_def isWhiteSpace_def Let_def
lemmas outcome_defs = outcomes_def map_filter_def status_of_event_def spec_outcome_def
lemmas teardown_defs = teardown_def teardown_page_def teardown_context_def teardown_browser_def
lemmas open_defs = openUrl_def openUrl_try_def navigate_def browserKindOf_def
  stripTrailingSlash_def

section \<open>Facts about the string operations\<close>

lemma startsWith_prefix: "startsWith s pre \<longleftrightarrow> prefix pre s"
  by (induction s pre rule: startsWith.induct) auto

lemma prefix_stripTrailingSlash: "prefix (stripTrailingSlash s) s"
  by (simp add: stripTrailingSlash_def prefix_def) (metis append_butlast_last_id)

lemma same_url_startsWith:
  "same_ignoring_trailing_slash cur u \<Longrightarrow> startsWith cur (stripTrailingSlash u)"
  using prefix_stripTrailingSlash [of cur]
  by (simp add: same_ignoring_trailing_slash_def startsWith_prefix)

lemma trim_decomposition:
  "\<exists>pre post. s = pre @ trim s @ post \<and> (\<forall>c \<in> set pre. isWhiteSpace c) \<and>
     (\<forall>c \<in> set post. isWhiteSpace c)"
proof -
  let ?t = "dropWhile isWhiteSpace s"
  let ?pre = "takeWhile isWhiteSpace s"
  let ?post = "rev (takeWhile isWhiteSpace (rev ?t))"
  have "trim s @ ?post =
      rev (takeWhile isWhiteSpace (rev ?t) @ dropWhile isWhiteSpace (rev ?t))"
    by (simp only: trim_def rev_append)
  also have "\<dots> = rev (rev ?t)"
    by (simp only: takeWhile_dropWhile_id)
  also have "\<dots> = ?t"
    by (simp only: rev_rev_ident)
  finally have "?pre @ trim s @ ?post = ?pre @ ?t"
    by (simp only:)
  then have "s = ?pre @ trim s @ ?post"
    by (simp only: takeWhile_dropWhile_id)
  moreover have "\<forall>c \<in> set ?pre. isWhiteSpace c"
    by (auto dest: set_takeWhileD)
  moreover have "\<forall>c \<in> set ?post. isWhiteSpace c"
    by (auto dest: set_takeWhileD)
  ultimately show ?thesis by blast
qed

lemma trim_ends:
  assumes "trim s \<noteq> []"
  shows "\<not> isWhiteSpace (hd (trim s)) \<and> \<not> isWhiteSpace (last (trim s))"
proof -
  let ?t = "dropWhile isWhiteSpace s"
  let ?r = "dropWhile isWhiteSpace (rev ?t)"
  have r: "?r \<noteq> []" using assms by (simp add: trim_def)
  have t: "?t \<noteq> []"
  proof
    assume "?t = []"
    then have "?r = []" by (simp only: rev.simps dropWhile.simps)
    with r show False by (simp only:)
  qed
  have "last (trim s) = hd ?r"
    using r by (simp add: trim_def last_rev)
  moreover have "\<not> isWhiteSpace (hd ?r)"
    using r by (rule hd_dropWhile)
  moreover have "hd (trim s) = last ?r"
    using r by (simp add: trim_def hd_rev)
  moreover have "last ?r = last (rev ?t)"
    using r by (metis append_Nil2 last_appendR takeWhile_dropWhile_id)
  moreover have "last (rev ?t) = hd ?t"
    using t by (simp add: last_rev)
  moreover have "\<not> isWhiteSpace (hd ?t)"
    using t by (rule hd_dropWhile)
  ultimately show ?thesis by simp
qed

lemma trim_sample_padded: "trim (js '' Create Your Account '') = js ''Create Your Account''"
  by (simp add: trim_def isWhiteSpace_def)

lemma trim_sample_inner: "trim (js ''Create  Your Account'') \<noteq> js ''Create Your Account''"
  by (simp add: trim_def isWhiteSpace_def)

lemma actualTextOf_Some: "actualTextOf (Some s) = trim s"
  by (simp add: actualTextOf_def)

section \<open>Facts about teardown\<close>

lemma teardown_result: "fst (teardown E m) = Inr ()"
  by (simp add: teardown_defs split: prod.splits option.splits)

lemma teardown_nested: "nested m \<Longrightarrow> nested (state (teardown E m))"
  by (auto simp: teardown_defs nested_def state_def split: option.splits)

lemma teardown_releases_prefix: "prefix (releases (trace (teardown E m))) (due_releases m)"
  by (simp add: teardown_defs releases_def due_releases_def trace_def is_release_def
      split: option.splits)

lemma teardown_all_null_iff:
  "all_null (state (teardown E m)) \<longleftrightarrow> ConsoleLog BrowserClosedLine \<in> set (trace (teardown E m))"
  by (auto simp: teardown_defs all_null_def state_def trace_def split: option.splits)

lemma teardown_no_failure:
  "(\<forall>ev \<in> set (due_releases m). \<not> release_fails E ev) \<longleftrightarrow>
     ConsoleLog BrowserClosedLine \<in> set (trace (teardown E m))"
  by (auto simp: teardown_defs due_releases_def release_fails_def trace_def split: option.splits)

lemma teardown_no_acquisition: "\<forall>ev \<in> set (trace (teardown E m)). \<not> is_acquisition ev"
  by (simp add: teardown_defs trace_def is_acquisition_def split: option.splits)

lemma teardown_failure_last:
  "\<forall>ev \<in> set (releases (trace (teardown E m))). release_fails E ev \<longrightarrow>
     last (releases (trace (teardown E m))) = ev \<and>
     (\<exists>x. last (trace (teardown E m)) = ConsoleError (TeardownErrorLine (Thrown x)))"
  by (auto simp: teardown_defs releases_def release_fails_def trace_def is_release_def
      split: option.splits)

lemma teardown_complete:
  "\<forall>ev \<in> set (due_releases m). \<not> release_fails E ev \<Longrightarrow>
     releases (trace (teardown E m)) = due_releases m \<and>
     last (trace (teardown E m)) = ConsoleLog BrowserClosedLine"
  by (auto simp: teardown_defs releases_def release_fails_def due_releases_def trace_def
      is_release_def split: option.splits)

lemma teardown_page_rejected:
  "page m = Some p \<Longrightarrow> closePage E p = Some x \<Longrightarrow>
     teardown E m = (Inr (), m, [ClosePage p, ConsoleError (TeardownErrorLine (Thrown x))])"
  by (simp add: teardown_def teardown_page_def)

section \<open>Facts about the validation loop\<close>

lemma outcomes_append: "outcomes (xs @ ys) = outcomes xs @ outcomes ys"
  by (simp add: outcomes_def map_filter_def)

lemma outcomes_Nil: "outcomes [] = []"
  by (simp add: outcomes_def map_filter_def)

lemma outcomes_Cons:
  "outcomes (ev # t) =
     (case status_of_event ev of None \<Rightarrow> outcomes t | Some s \<Rightarrow> s # outcomes t)"
  by (simp add: outcomes_def map_filter_def split: option.splits)

text \<open>The code's iteration refines the specification's classification.\<close>

lemma validate_element_ok: "fst (validate_element E p n d) = (spec_outcome E p d = Matched)"
  by (simp add: validate_element_def spec_outcome_def Let_def split: sum.splits)

lemma validate_element_outcomes:
  "outcomes (snd (validate_element E p n d)) = [spec_outcome E p d]"
  by (simp add: validate_element_def spec_outcome_def Let_def outcomes_Cons outcomes_Nil
      status_of_event_def split: sum.splits)

lemma validate_loop_Cons_snd:
  "snd (validate_loop E p ((n, d) # rest) a) =
     snd (validate_element E p n d) @
     snd (validate_loop E p rest (if fst (validate_element E p n d) then a else False))"
  by (simp split: prod.splits)

lemma validate_loop_Cons_fst:
  "fst (validate_loop E p ((n, d) # rest) a) =
     fst (validate_loop E p rest (if fst (validate_element E p n d) then a else False))"
  by (simp split: prod.splits)

lemma validate_loop_trace:
  "snd (validate_loop E p es a) = concat (map (\<lambda>(n, d). snd (validate_element E p n d)) es)"
proof (induction es arbitrary: a)
  case Nil
  show ?case by simp
next
  case (Cons e es)
  obtain n d where e: "e = (n, d)" by (cases e)
  show ?case unfolding e validate_loop_Cons_snd Cons.IH by simp
qed

lemma validate_loop_verdict:
  "fst (validate_loop E p es a) = (a \<and> (\<forall>(n, d) \<in> set es. spec_outcome E p d = Matched))"
proof (induction es arbitrary: a)
  case Nil
  show ?case by simp
next
  case (Cons e es)
  obtain n d where e: "e = (n, d)" by (cases e)
  show ?case unfolding e validate_loop_Cons_fst Cons.IH validate_element_ok by auto
qed

lemma validate_loop_outcomes:
  "outcomes (snd (validate_loop E p es a)) = map (\<lambda>(n, d). spec_outcome E p d) es"
  by (induction es)
    (auto simp: validate_loop_trace outcomes_append outcomes_Nil validate_element_outcomes)

lemma validate_run:
  assumes "page m = Some p" and "readFileSync E f = Inr content"
    and "yaml_load E content = Inr (Some data)" and "elements data = Some es"
  shows "validateElementFromData E m f =
           (Inr (fst (validate_loop E p es True)), m,
            [ConsoleLog (ValidatingCount (length es))] @ snd (validate_loop E p es True) @
            [ConsoleLog RuleLine,
             ConsoleLog (if fst (validate_loop E p es True) then AllPassedLine else SomeFailedLine),
             ConsoleLog RuleLine])"
  using assms
  by (simp add: validateElementFromData_def validate_try_def split: prod.splits)

lemma outcomes_summary:
  "outcomes ([ConsoleLog (ValidatingCount k)] @ t @
             [ConsoleLog RuleLine, ConsoleLog (if b then AllPassedLine else SomeFailedLine),
              ConsoleLog RuleLine]) = outcomes t"
  by (simp add: outcomes_append outcomes_Cons outcomes_Nil status_of_event_def)

lemma spec_outcome_Matched:
  "spec_outcome E p d = Matched \<longleftrightarrow>
     (\<exists>el tc. locator_first E p (locator d) = Inr el \<and> isVisible E el = Inr True \<and>
        textContent E el = Inr tc \<and> actualTextOf tc = expected_text d)"
  by (auto simp: spec_outcome_def split: sum.splits if_splits)

lemma validate_state: "state (validateElementFromData E m f) = m"
  by (simp add: validateElementFromData_def state_def split: option.splits sum.splits prod.splits)

section \<open>Facts about openUrl\<close>

lemma openUrl_caught:
  assumes "openUrl_try E m u bt = (Inl e, m1, t1)"
  shows "openUrl E m u bt =
           (Inl e, state (teardown E m1),
            t1 @ ConsoleError (ErrorOpening u e) # trace (teardown E m1))"
proof -
  obtain r m2 t2 where td: "teardown E m1 = (r, m2, t2)"
    by (cases "teardown E m1")
  with teardown_result [of E m1] have "r = Inr ()" by simp
  with td assms show ?thesis
    by (simp add: openUrl_def state_def trace_def)
qed

lemma openUrl_returned:
  "openUrl_try E m u bt = (Inr p, m1, t1) \<Longrightarrow> openUrl E m u bt = (Inr p, m1, t1)"
  by (simp add: openUrl_def)

lemma caught_fails_after_teardown:
  assumes "openUrl_try E m u bt = (Inl e, m1, t1)" and "releases t1 = []"
  shows "fails_after_teardown E u m1 e (openUrl E m u bt)"
proof -
  let ?r = "openUrl E m u bt"
  note run = openUrl_caught [OF assms(1)]
  have rel: "releases (trace ?r) = releases (trace (teardown E m1))"
    using assms(2) by (simp add: run trace_def releases_def is_release_def)
  have st: "state ?r = state (teardown E m1)"
    by (simp add: run state_def)
  have "result ?r = Inl e"
    by (simp add: run result_def)
  moreover have "suffix (ConsoleError (ErrorOpening u e) # trace (teardown E m1)) (trace ?r)"
    by (simp add: run trace_def suffix_def)
  moreover have "prefix (releases (trace ?r)) (due_releases m1)"
    unfolding rel by (rule teardown_releases_prefix)
  moreover have "\<forall>ev \<in> set (releases (trace ?r)). release_fails E ev \<longrightarrow>
      last (releases (trace ?r)) = ev"
    unfolding rel using teardown_failure_last [of E m1] by blast
  moreover have "(\<forall>ev \<in> set (due_releases m1). \<not> release_fails E ev) \<longrightarrow>
      releases (trace ?r) = due_releases m1 \<and> all_null (state ?r)"
    unfolding rel st
    using teardown_complete [of m1 E] teardown_all_null_iff [of E m1] teardown_no_failure [of m1 E]
    by blast
  ultimately show ?thesis
    using rel st unfolding fails_after_teardown_def by blast
qed

lemma navigate_fails:
  "fst (navigate E p u) =
     (case goto E p u of
        Some x \<Rightarrow> Some (Thrown x)
      | None \<Rightarrow>
          (case waitForLoadState E p of
             Some x \<Rightarrow> Some (Thrown x)
           | None \<Rightarrow> (case waitForTimeout E p of Some x \<Rightarrow> Some (Thrown x) | None \<Rightarrow> None)))"
  by (simp add: navigate_def Let_def split: option.splits)

lemma navigate_no_release: "releases (snd (navigate E p u)) = []"
  by (simp add: navigate_def Let_def releases_def is_release_def split: option.splits)

lemma openUrl_try_nested: "nested m \<Longrightarrow> nested (state (openUrl_try E m u bt))"
  by (simp add: openUrl_try_def nested_def state_def split: option.splits sum.splits prod.splits)

lemma openUrl_nested:
  assumes "nested m"
  shows "nested (state (openUrl E m u bt))"
proof -
  obtain r m1 t1 where tr: "openUrl_try E m u bt = (r, m1, t1)"
    by (cases "openUrl_try E m u bt")
  with openUrl_try_nested [OF assms, of E u bt] have n1: "nested m1"
    by (simp add: state_def)
  show ?thesis
  proof (cases r)
    case (Inl e)
    with tr openUrl_caught [of E m u bt e m1 t1] teardown_nested [OF n1, of E]
    show ?thesis by (simp add: state_def)
  next
    case (Inr p)
    with tr openUrl_returned [of E m u bt p m1 t1] n1 show ?thesis by (simp add: state_def)
  qed
qed

section \<open>The claims\<close>

text \<open>
  C6. For every browser type whose lower-cased form is none of \<^verbatim>\<open>chromium\<close>, \<^verbatim>\<open>firefox\<close>,
  \<^verbatim>\<open>webkit\<close>, \<^verbatim>\<open>openUrl\<close> fails with the unsupported-browser error and acquires nothing: no
  launch, no context and no page is requested. What it does besides is print the error and
  run \<^verbatim>\<open>teardown\<close> on the fields as they were.
\<close>

theorem openUrl_unsupported_browser:
  assumes "toLowerCase E bt \<notin> {js ''chromium'', js ''firefox'', js ''webkit''}"
  shows "result (openUrl E m u bt) = Inl (UnsupportedBrowserType bt) \<and>
         (\<forall>ev \<in> set (trace (openUrl E m u bt)). \<not> is_acquisition ev) \<and>
         state (openUrl E m u bt) = state (teardown E m) \<and>
         trace (openUrl E m u bt) =
           ConsoleError (ErrorOpening u (UnsupportedBrowserType bt)) # trace (teardown E m)"
proof -
  have "browserKindOf (toLowerCase E bt) = None"
    using assms by (simp add: browserKindOf_def)
  then have "openUrl_try E m u bt = (Inl (UnsupportedBrowserType bt), m, [])"
    by (simp add: openUrl_try_def)
  from openUrl_caught [OF this] show ?thesis
    using teardown_no_acquisition [of E m]
    by (simp add: result_def state_def trace_def is_acquisition_def)
qed

theorem openUrl_unsupported_browser_witness:
  "toLowerCase sample_engine (js ''Opera'') = js ''opera'' \<and>
   js ''opera'' \<notin> {js ''chromium'', js ''firefox'', js ''webkit''} \<and>
   result (openUrl sample_engine new_manager (js ''https://www.tophat.com/'') (js ''Opera'')) =
     Inl (UnsupportedBrowserType (js ''Opera'')) \<and>
   trace (openUrl sample_engine new_manager (js ''https://www.tophat.com/'') (js ''Opera'')) =
     [ConsoleError (ErrorOpening (js ''https://www.tophat.com/'')
        (UnsupportedBrowserType (js ''Opera''))),
      ConsoleLog BrowserClosedLine] \<and>
   state (openUrl sample_engine new_manager (js ''https://www.tophat.com/'') (js ''Opera'')) =
     new_manager"
proof -
  have low: "toLowerCase sample_engine (js ''Opera'') = js ''opera''"
    by (simp add: sample_engine_def ascii_lower_def)
  have out: "toLowerCase sample_engine (js ''Opera'') \<notin> {js ''chromium'', js ''firefox'', js ''webkit''}"
    unfolding low by simp
  have td: "teardown sample_engine new_manager = (Inr (), new_manager, [ConsoleLog BrowserClosedLine])"
    by (simp add: teardown_defs new_manager_def)
  from openUrl_unsupported_browser [OF out, of new_manager "js ''https://www.tophat.com/''"] low td
  show ?thesis
    by (simp add: state_def trace_def)
qed

text \<open>
  C7, as the claim states it, fails: a failure inside \<^verbatim>\<open>openUrl\<close> need not tear down what was
  acquired. On an engine that rejects both the navigation and the closing of the page,
  \<^verbatim>\<open>openUrl\<close> launches the browser, creates the context and the page, fails at \<^verbatim>\<open>goto\<close>, asks
  for the page to be closed and stops there: the context and the browser are never asked to
  close and all three fields are still set when the exception reaches the caller.
\<close>

theorem openUrl_failure_leaves_session:
  "goto unreachable_stuck_engine (Page 1) (js ''https://tophat.com/'') = Some 6 \<and>
   closePage unreachable_stuck_engine (Page 1) = Some 7 \<and>
   result (openUrl unreachable_stuck_engine new_manager (js ''https://tophat.com/'')
     (js ''chromium'')) = Inl (Thrown 6) \<and>
   releases (trace (openUrl unreachable_stuck_engine new_manager (js ''https://tophat.com/'')
     (js ''chromium''))) = [ClosePage (Page 1)] \<and>
   state (openUrl unreachable_stuck_engine new_manager (js ''https://tophat.com/'')
     (js ''chromium'')) =
     \<lparr>browser = Some (Browser 1), browserContext = Some (BrowserContext 1),
      page = Some (Page 1)\<rparr>"
  by (simp add: open_defs teardown_defs sample_defs run_defs releases_def is_release_def)

text \<open>
  C7, amended. When the launch, the context creation, the page creation or the navigation
  (\<^verbatim>\<open>goto\<close> and the two waits) fails inside \<^verbatim>\<open>openUrl\<close>, the method prints the error, runs
  \<^verbatim>\<open>teardown\<close> on exactly the fields acquired so far and then throws the very exception of
  the failed call, unchanged. The releases of the call are those of that teardown: they
  follow the order page, context, browser and stop at the first release that fails. Where
  none fails, every resource held is released and all three fields end up \<^verbatim>\<open>null\<close>.
\<close>

theorem openUrl_failure_teardown_rethrow:
  assumes "browserKindOf (toLowerCase E bt) = Some k"
  shows "(\<forall>x. launch E k = Inl x \<longrightarrow>
            fails_after_teardown E u m (Thrown x) (openUrl E m u bt)) \<and>
         (\<forall>b x. launch E k = Inr b \<and> newContext E b = Inl x \<longrightarrow>
            fails_after_teardown E u (m\<lparr>browser := Some b\<rparr>) (Thrown x) (openUrl E m u bt)) \<and>
         (\<forall>b c x. launch E k = Inr b \<and> newContext E b = Inr c \<and> newPage E c = Inl x \<longrightarrow>
            fails_after_teardown E u (m\<lparr>browser := Some b, browserContext := Some c\<rparr>) (Thrown x)
              (openUrl E m u bt)) \<and>
         (\<forall>b c p x. launch E k = Inr b \<and> newContext E b = Inr c \<and> newPage E c = Inr p \<and>
            (goto E p u = Some x \<or>
             goto E p u = None \<and> waitForLoadState E p = Some x \<or>
             goto E p u = None \<and> waitForLoadState E p = None \<and> waitForTimeout E p = Some x) \<longrightarrow>
            fails_after_teardown E u
              (m\<lparr>browser := Some b, browserContext := Some c, page := Some p\<rparr>) (Thrown x)
              (openUrl E m u bt))"
proof (intro conjI allI impI)
  fix x assume "launch E k = Inl x"
  then have "openUrl_try E m u bt = (Inl (Thrown x), m, [Launch k])"
    using assms by (simp add: openUrl_try_def)
  then show "fails_after_teardown E u m (Thrown x) (openUrl E m u bt)"
    by (rule caught_fails_after_teardown) (simp add: releases_def is_release_def)
next
  fix b x assume "launch E k = Inr b \<and> newContext E b = Inl x"
  then have "openUrl_try E m u bt =
      (Inl (Thrown x), m\<lparr>browser := Some b\<rparr>, [Launch k, NewContext b])"
    using assms by (simp add: openUrl_try_def)
  then show "fails_after_teardown E u (m\<lparr>browser := Some b\<rparr>) (Thrown x) (openUrl E m u bt)"
    by (rule caught_fails_after_teardown) (simp add: releases_def is_release_def)
next
  fix b c x assume "launch E k = Inr b \<and> newContext E b = Inr c \<and> newPage E c = Inl x"
  then have "openUrl_try E m u bt =
      (Inl (Thrown x), m\<lparr>browser := Some b, browserContext := Some c\<rparr>,
       [Launch k, NewContext b, NewPage c])"
    using assms by (simp add: openUrl_try_def)
  then show "fails_after_teardown E u (m\<lparr>browser := Some b, browserContext := Some c\<rparr>)
          (Thrown x) (openUrl E m u bt)"
    by (rule caught_fails_after_teardown) (simp add: releases_def is_release_def)
next
  fix b c p x
  assume a: "launch E k = Inr b \<and> newContext E b = Inr c \<and> newPage E c = Inr p \<and>
            (goto E p u = Some x \<or>
             goto E p u = None \<and> waitForLoadState E p = Some x \<or>
             goto E p u = None \<and> waitForLoadState E p = None \<and> waitForTimeout E p = Some x)"
  then have "fst (navigate E p u) = Some (Thrown x)"
    by (auto simp: navigate_fails)
  then have "navigate E p u = (Some (Thrown x), snd (navigate E p u))"
    by (cases "navigate E p u") simp
  then obtain t where nav: "navigate E p u = (Some (Thrown x), t)" and t: "t = snd (navigate E p u)"
    by blast
  have "openUrl_try E m u bt =
      (Inl (Thrown x), m\<lparr>browser := Some b, browserContext := Some c, page := Some p\<rparr>,
       [Launch k, NewContext b, NewPage c] @ t)"
    using assms a nav by (simp add: openUrl_try_def)
  then show "fails_after_teardown E u
          (m\<lparr>browser := Some b, browserContext := Some c, page := Some p\<rparr>)
          (Thrown x) (openUrl E m u bt)"
  proof (rule caught_fails_after_teardown)
    show "releases ([Launch k, NewContext b, NewPage c] @ t) = []"
      using navigate_no_release [of E p u] by (simp add: t releases_def is_release_def)
  qed
qed

theorem openUrl_failure_teardown_rethrow_witness:
  "browserKindOf (toLowerCase sample_engine (js ''firefox'')) = Some Firefox \<and>
   result (openUrl (sample_engine\<lparr>launch := (\<lambda>k. Inl 4)\<rparr>) new_manager (js ''https://tophat.com/'')
     (js ''firefox'')) = Inl (Thrown 4) \<and>
   releases (trace (openUrl (sample_engine\<lparr>launch := (\<lambda>k. Inl 4)\<rparr>) new_manager
     (js ''https://tophat.com/'') (js ''firefox''))) = [] \<and>
   result (openUrl (sample_engine\<lparr>newPage := (\<lambda>c. Inl 5)\<rparr>) new_manager (js ''https://tophat.com/'')
     (js ''firefox'')) = Inl (Thrown 5) \<and>
   releases (trace (openUrl (sample_engine\<lparr>newPage := (\<lambda>c. Inl 5)\<rparr>) new_manager
     (js ''https://tophat.com/'') (js ''firefox''))) =
     [CloseContext (BrowserContext 1), CloseBrowser (Browser 1)] \<and>
   result (openUrl (sample_engine\<lparr>goto := (\<lambda>p u. Some 6)\<rparr>) new_manager (js ''https://tophat.com/'')
     (js ''firefox'')) = Inl (Thrown 6) \<and>
   releases (trace (openUrl (sample_engine\<lparr>goto := (\<lambda>p u. Some 6)\<rparr>) new_manager
     (js ''https://tophat.com/'') (js ''firefox''))) =
     [ClosePage (Page 1), CloseContext (BrowserContext 1), CloseBrowser (Browser 1)] \<and>
   all_null (state (openUrl (sample_engine\<lparr>goto := (\<lambda>p u. Some 6)\<rparr>) new_manager
     (js ''https://tophat.com/'') (js ''firefox'')))"
proof -
  let ?u = "js ''https://tophat.com/''"
  let ?E1 = "sample_engine\<lparr>launch := (\<lambda>k. Inl 4)\<rparr>"
  let ?E3 = "sample_engine\<lparr>newPage := (\<lambda>c. Inl 5)\<rparr>"
  let ?E4 = "sample_engine\<lparr>goto := (\<lambda>p u. Some 6)\<rparr>"
  have k: "browserKindOf (toLowerCase sample_engine (js ''firefox'')) = Some Firefox"
    by (simp add: sample_engine_def ascii_lower_def browserKindOf_def)
  have k1: "browserKindOf (toLowerCase ?E1 (js ''firefox'')) = Some Firefox"
    using k by simp
  have k3: "browserKindOf (toLowerCase ?E3 (js ''firefox'')) = Some Firefox"
    using k by simp
  have k4: "browserKindOf (toLowerCase ?E4 (js ''firefox'')) = Some Firefox"
    using k by simp
  have h1: "launch ?E1 Firefox = Inl 4"
    by simp
  have h3: "launch ?E3 Firefox = Inr (Browser 1) \<and> newContext ?E3 (Browser 1) = Inr (BrowserContext 1) \<and>
      newPage ?E3 (BrowserContext 1) = Inl 5"
    by (simp add: sample_engine_def)
  have h4: "launch ?E4 Firefox = Inr (Browser 1) \<and> newContext ?E4 (Browser 1) = Inr (BrowserContext 1) \<and>
      newPage ?E4 (BrowserContext 1) = Inr (Page 1) \<and>
      (goto ?E4 (Page 1) ?u = Some 6 \<or>
       goto ?E4 (Page 1) ?u = None \<and> waitForLoadState ?E4 (Page 1) = Some 6 \<or>
       goto ?E4 (Page 1) ?u = None \<and> waitForLoadState ?E4 (Page 1) = None \<and>
         waitForTimeout ?E4 (Page 1) = Some 6)"
    by (simp add: sample_engine_def)
  have f1: "fails_after_teardown ?E1 ?u new_manager (Thrown 4)
      (openUrl ?E1 new_manager ?u (js ''firefox''))"
    using openUrl_failure_teardown_rethrow [OF k1, where m = new_manager and u = "?u"] h1 by blast
  have f3: "fails_after_teardown ?E3 ?u
      (new_manager\<lparr>browser := Some (Browser 1), browserContext := Some (BrowserContext 1)\<rparr>)
      (Thrown 5) (openUrl ?E3 new_manager ?u (js ''firefox''))"
    using openUrl_failure_teardown_rethrow [OF k3, where m = new_manager and u = "?u"] h3 by blast
  have f4: "fails_after_teardown ?E4 ?u
      (new_manager\<lparr>browser := Some (Browser 1), browserContext := Some (BrowserContext 1),
         page := Some (Page 1)\<rparr>)
      (Thrown 6) (openUrl ?E4 new_manager ?u (js ''firefox''))"
    using openUrl_failure_teardown_rethrow [OF k4, where m = new_manager and u = "?u"] h4 by blast
  have t1: "trace (teardown ?E1 new_manager) = [ConsoleLog BrowserClosedLine]"
    by (simp add: teardown_defs new_manager_def trace_def)
  have t3: "trace (teardown ?E3
      (new_manager\<lparr>browser := Some (Browser 1), browserContext := Some (BrowserContext 1)\<rparr>)) =
      [CloseContext (BrowserContext 1), CloseBrowser (Browser 1), ConsoleLog BrowserClosedLine]"
    by (simp add: teardown_defs new_manager_def trace_def sample_engine_def)
  have t4: "teardown ?E4
      (new_manager\<lparr>browser := Some (Browser 1), browserContext := Some (BrowserContext 1),
         page := Some (Page 1)\<rparr>) =
      (Inr (), new_manager,
       [ClosePage (Page 1), CloseContext (BrowserContext 1), CloseBrowser (Browser 1),
        ConsoleLog BrowserClosedLine])"
    by (simp add: teardown_defs new_manager_def sample_engine_def)
  from k f1 f3 f4 show ?thesis
    unfolding fails_after_teardown_def t1 t3 t4
    by (simp add: releases_def is_release_def state_def trace_def all_null_def new_manager_def)
qed

text \<open>
  C9, as the claim states it, fails: a resolved URL that differs from the requested one by
  more than a trailing slash need not be warned about. The sample engine resolves
  \<^verbatim>\<open>https://tophat.com/\<close> to \<^verbatim>\<open>https://tophat.com/pricing\<close>; the two are not the same up to a
  trailing slash, yet \<^verbatim>\<open>openUrl\<close> prints the success line and no warning.
\<close>

theorem url_mismatch_without_warning:
  "\<not> same_ignoring_trailing_slash (url sample_engine (Page 1)) (js ''https://tophat.com/'') \<and>
   result (openUrl sample_engine new_manager (js ''https://tophat.com/'') (js ''chromium'')) =
     Inr (Page 1) \<and>
   ConsoleLog (UrlWarning (url sample_engine (Page 1)) (js ''https://tophat.com/'')) \<notin>
     set (trace (openUrl sample_engine new_manager (js ''https://tophat.com/'') (js ''chromium''))) \<and>
   last (trace (openUrl sample_engine new_manager (js ''https://tophat.com/'') (js ''chromium''))) =
     ConsoleLog (NavigatedTo (js ''https://tophat.com/pricing''))"
  by (simp add: same_ignoring_trailing_slash_def open_defs sample_defs run_defs)

text \<open>
  C9, amended. After a navigation whose steps all succeed, \<^verbatim>\<open>openUrl\<close> tests whether the
  resolved URL starts with the requested URL less one trailing slash. If it does not, the
  last line printed is the warning, otherwise the success line; in both cases nothing is
  thrown, no error is printed and the page handle is returned and kept in the \<^verbatim>\<open>page\<close>
  field. A warning is printed only for URLs that do differ by more than a trailing slash.
\<close>

theorem openUrl_url_check_nonfatal:
  assumes "browserKindOf (toLowerCase E bt) = Some k"
    and "launch E k = Inr b" and "newContext E b = Inr c" and "newPage E c = Inr p"
    and "goto E p u = None" and "waitForLoadState E p = None" and "waitForTimeout E p = None"
  shows "result (openUrl E m u bt) = Inr p \<and>
         page (state (openUrl E m u bt)) = Some p \<and>
         last (trace (openUrl E m u bt)) =
           ConsoleLog (if startsWith (url E p) (stripTrailingSlash u)
                       then NavigatedTo (url E p) else UrlWarning (url E p) u) \<and>
         (\<forall>l. ConsoleError l \<notin> set (trace (openUrl E m u bt))) \<and>
         (ConsoleLog (UrlWarning (url E p) u) \<in> set (trace (openUrl E m u bt)) \<longrightarrow>
            \<not> same_ignoring_trailing_slash (url E p) u)"
proof -
  define t where "t =
      [ConsoleLog (NavigatingTo u), Goto p u, WaitForLoadState p, WaitForTimeout p,
       ConsoleLog (if \<not> startsWith (url E p) (stripTrailingSlash u)
                   then UrlWarning (url E p) u else NavigatedTo (url E p))]"
  have nav: "navigate E p u = (None, t)"
    using assms by (simp add: navigate_def Let_def t_def)
  have "openUrl_try E m u bt =
      (Inr p, m\<lparr>browser := Some b, browserContext := Some c, page := Some p\<rparr>,
       [Launch k, NewContext b, NewPage c] @ t)"
    using assms(1-4) nav by (simp add: openUrl_try_def)
  from openUrl_returned [OF this]
  have run: "openUrl E m u bt =
      (Inr p, m\<lparr>browser := Some b, browserContext := Some c, page := Some p\<rparr>,
       [Launch k, NewContext b, NewPage c] @ t)" .
  show ?thesis
    using same_url_startsWith [of "url E p" u]
    by (auto simp: run t_def result_def state_def trace_def)
qed

theorem openUrl_url_check_nonfatal_witness:
  "browserKindOf (toLowerCase sample_engine (js ''WebKit'')) = Some Webkit \<and>
   launch sample_engine Webkit = Inr (Browser 1) \<and>
   newContext sample_engine (Browser 1) = Inr (BrowserContext 1) \<and>
   newPage sample_engine (BrowserContext 1) = Inr (Page 1) \<and>
   goto sample_engine (Page 1) (js ''https://www.tophat.com/'') = None \<and>
   waitForLoadState sample_engine (Page 1) = None \<and>
   waitForTimeout sample_engine (Page 1) = None \<and>
   result (openUrl sample_engine new_manager (js ''https://www.tophat.com/'') (js ''WebKit'')) =
     Inr (Page 1) \<and>
   page (state (openUrl sample_engine new_manager (js ''https://www.tophat.com/'') (js ''WebKit''))) =
     Some (Page 1) \<and>
   last (trace (openUrl sample_engine new_manager (js ''https://www.tophat.com/'') (js ''WebKit''))) =
     ConsoleLog (UrlWarning (js ''https://tophat.com/pricing'') (js ''https://www.tophat.com/''))"
proof -
  let ?u = "js ''https://www.tophat.com/''"
  have k: "browserKindOf (toLowerCase sample_engine (js ''WebKit'')) = Some Webkit"
    by (simp add: sample_engine_def ascii_lower_def browserKindOf_def)
  have b: "launch sample_engine Webkit = Inr (Browser 1)"
    and c: "newContext sample_engine (Browser 1) = Inr (BrowserContext 1)"
    and p: "newPage sample_engine (BrowserContext 1) = Inr (Page 1)"
    and g: "goto sample_engine (Page 1) ?u = None"
    and w1: "waitForLoadState sample_engine (Page 1) = None"
    and w2: "waitForTimeout sample_engine (Page 1) = None"
    by (simp_all add: sample_engine_def)
  have cur: "url sample_engine (Page 1) = js ''https://tophat.com/pricing''"
    by (simp add: sample_engine_def)
  have chk: "\<not> startsWith (js ''https://tophat.com/pricing'') (stripTrailingSlash ?u)"
    by (simp add: stripTrailingSlash_def)
  from openUrl_url_check_nonfatal [OF k b c p g w1 w2, where m = new_manager] k b c p g w1 w2 chk
  show ?thesis
    unfolding cur by simp
qed

text \<open>
  C1. When the declaration file loads and has the \<^verbatim>\<open>elements\<close> key, \<^verbatim>\<open>validateElementFromData\<close>
  returns \<^verbatim>\<open>true\<close> if and only if every reported outcome is \<open>Matched\<close>, that is, if and only
  if every element resolves, is visible and has a trimmed text content equal to the expected
  text; one outcome \<open>NotVisible\<close>, \<open>TextMismatch\<close> or \<open>ResolutionError\<close> makes it return
  \<^verbatim>\<open>false\<close>. (A \<^verbatim>\<open>null\<close> text content counts as the empty string.)
\<close>

theorem validate_aggregate_iff_all_matched:
  assumes "page m = Some p" and "readFileSync E f = Inr content"
    and "yaml_load E content = Inr (Some data)" and "elements data = Some es"
  shows "result (validateElementFromData E m f) =
           Inr (\<forall>s \<in> set (outcomes (trace (validateElementFromData E m f))). s = Matched) \<and>
         result (validateElementFromData E m f) =
           Inr (\<forall>(n, d) \<in> set es.
                  \<exists>el tc. locator_first E p (locator d) = Inr el \<and> isVisible E el = Inr True \<and>
                    textContent E el = Inr tc \<and> actualTextOf tc = expected_text d) \<and>
         (\<forall>s \<in> set (outcomes (trace (validateElementFromData E m f))).
            s \<in> {NotVisible, TextMismatch, ResolutionError} \<longrightarrow>
            result (validateElementFromData E m f) = Inr False)"
proof -
  note run = validate_run [OF assms]
  have oc: "outcomes (trace (validateElementFromData E m f)) = map (\<lambda>(n, d). spec_outcome E p d) es"
    unfolding run trace_def snd_conv outcomes_summary by (rule validate_loop_outcomes)
  have res: "result (validateElementFromData E m f) =
      Inr (\<forall>(n, d) \<in> set es. spec_outcome E p d = Matched)"
    by (simp add: run result_def validate_loop_verdict)
  have 1: "result (validateElementFromData E m f) =
      Inr (\<forall>s \<in> set (outcomes (trace (validateElementFromData E m f))). s = Matched)"
    unfolding oc res by auto
  have 2: "result (validateElementFromData E m f) =
           Inr (\<forall>(n, d) \<in> set es.
                  \<exists>el tc. locator_first E p (locator d) = Inr el \<and> isVisible E el = Inr True \<and>
                    textContent E el = Inr tc \<and> actualTextOf tc = expected_text d)"
    unfolding res by (simp add: spec_outcome_Matched)
  have 3: "\<forall>s \<in> set (outcomes (trace (validateElementFromData E m f))).
            s \<in> {NotVisible, TextMismatch, ResolutionError} \<longrightarrow>
            result (validateElementFromData E m f) = Inr False"
    unfolding 1 by auto
  from 1 2 3 show ?thesis by blast
qed

theorem validate_aggregate_iff_all_matched_witness:
  "page open_manager = Some (Page 1) \<and>
   readFileSync sample_engine (js ''one.yaml'') = Inr (js ''one'') \<and>
   yaml_load sample_engine (js ''one'') = Inr (Some \<lparr>elements = Some (take 1 sample_elements)\<rparr>) \<and>
   outcomes (trace (validateElementFromData sample_engine open_manager (js ''one.yaml''))) =
     [Matched] \<and>
   result (validateElementFromData sample_engine open_manager (js ''one.yaml'')) = Inr True \<and>
   readFileSync sample_engine (js ''locator.yaml'') = Inr (js ''all'') \<and>
   yaml_load sample_engine (js ''all'') = Inr (Some \<lparr>elements = Some sample_elements\<rparr>) \<and>
   outcomes (trace (validateElementFromData sample_engine open_manager (js ''locator.yaml''))) =
     [Matched, ResolutionError, NotVisible, TextMismatch] \<and>
   result (validateElementFromData sample_engine open_manager (js ''locator.yaml'')) = Inr False"
proof -
  have p: "page open_manager = Some (Page 1)"
    by (simp add: open_manager_def)
  have r1: "readFileSync sample_engine (js ''one.yaml'') = Inr (js ''one'')"
    by (simp add: sample_engine_def)
  have y1: "yaml_load sample_engine (js ''one'') =
      Inr (Some \<lparr>elements = Some (take 1 sample_elements)\<rparr>)"
    by (simp add: sample_engine_def)
  have e1: "elements \<lparr>elements = Some (take 1 sample_elements)\<rparr> = Some (take 1 sample_elements)"
    by simp
  have r2: "readFileSync sample_engine (js ''locator.yaml'') = Inr (js ''all'')"
    by (simp add: sample_engine_def)
  have y2: "yaml_load sample_engine (js ''all'') = Inr (Some \<lparr>elements = Some sample_elements\<rparr>)"
    by (simp add: sample_engine_def)
  have e2: "elements \<lparr>elements = Some sample_elements\<rparr> = Some sample_elements"
    by simp
  have o1: "outcomes (trace (validateElementFromData sample_engine open_manager (js ''one.yaml''))) =
      [Matched]"
    by (simp add: sample_defs run_defs validate_defs outcome_defs)
  have o2: "outcomes (trace (validateElementFromData sample_engine open_manager (js ''locator.yaml''))) =
      [Matched, ResolutionError, NotVisible, TextMismatch]"
    by (simp add: sample_defs run_defs validate_defs outcome_defs)
  from validate_aggregate_iff_all_matched [OF p r1 y1 e1]
    validate_aggregate_iff_all_matched [OF p r2 y2 e2] p r1 y1 r2 y2 o1 o2
  show ?thesis
    by simp
qed

text \<open>
  C3. When the declaration file loads and has the \<^verbatim>\<open>elements\<close> key, the events of
  \<^verbatim>\<open>validateElementFromData\<close> are the count line, then for every element in input order the
  events of its own iteration, then the summary. The events of an iteration depend on the
  page and on that element alone, whatever happened to the elements before it, and they
  carry exactly one outcome. So there is one outcome per element, in input order, and a
  failed resolution, an invisible element or a text mismatch stops nothing.
\<close>

theorem validate_one_outcome_per_assertion:
  assumes "page m = Some p" and "readFileSync E f = Inr content"
    and "yaml_load E content = Inr (Some data)" and "elements data = Some es"
  shows "trace (validateElementFromData E m f) =
           [ConsoleLog (ValidatingCount (length es))] @
           concat (map (\<lambda>(n, d). snd (validate_element E p n d)) es) @
           [ConsoleLog RuleLine,
            ConsoleLog (if result (validateElementFromData E m f) = Inr True
                        then AllPassedLine else SomeFailedLine),
            ConsoleLog RuleLine] \<and>
         outcomes (trace (validateElementFromData E m f)) = map (\<lambda>(n, d). spec_outcome E p d) es \<and>
         length (outcomes (trace (validateElementFromData E m f))) = length es \<and>
         (\<forall>n d. outcomes (snd (validate_element E p n d)) = [spec_outcome E p d])"
proof -
  note run = validate_run [OF assms]
  have oc: "outcomes (trace (validateElementFromData E m f)) = map (\<lambda>(n, d). spec_outcome E p d) es"
    unfolding run trace_def snd_conv outcomes_summary by (rule validate_loop_outcomes)
  have tr: "trace (validateElementFromData E m f) =
           [ConsoleLog (ValidatingCount (length es))] @
           concat (map (\<lambda>(n, d). snd (validate_element E p n d)) es) @
           [ConsoleLog RuleLine,
            ConsoleLog (if result (validateElementFromData E m f) = Inr True
                        then AllPassedLine else SomeFailedLine),
            ConsoleLog RuleLine]"
    by (simp add: run trace_def result_def validate_loop_trace)
  from oc tr show ?thesis
    by (simp add: validate_element_outcomes)
qed

theorem validate_one_outcome_per_assertion_witness:
  "page open_manager = Some (Page 1) \<and>
   readFileSync sample_engine (js ''locator.yaml'') = Inr (js ''all'') \<and>
   yaml_load sample_engine (js ''all'') = Inr (Some \<lparr>elements = Some sample_elements\<rparr>) \<and>
   length sample_elements = 4 \<and>
   map (\<lambda>(n, d). spec_outcome sample_engine (Page 1) d) sample_elements =
     [Matched, ResolutionError, NotVisible, TextMismatch] \<and>
   outcomes (trace (validateElementFromData sample_engine open_manager (js ''locator.yaml''))) =
     [Matched, ResolutionError, NotVisible, TextMismatch]"
proof -
  have p: "page open_manager = Some (Page 1)"
    by (simp add: open_manager_def)
  have r: "readFileSync sample_engine (js ''locator.yaml'') = Inr (js ''all'')"
    by (simp add: sample_engine_def)
  have y: "yaml_load sample_engine (js ''all'') = Inr (Some \<lparr>elements = Some sample_elements\<rparr>)"
    by (simp add: sample_engine_def)
  have e: "elements \<lparr>elements = Some sample_elements\<rparr> = Some sample_elements"
    by simp
  have n: "length sample_elements = 4"
    by (simp add: sample_elements_def)
  have s: "map (\<lambda>(n, d). spec_outcome sample_engine (Page 1) d) sample_elements =
      [Matched, ResolutionError, NotVisible, TextMismatch]"
    by (simp add: sample_engine_def sample_elements_def spec_outcome_def actualTextOf_def
        trim_def isWhiteSpace_def)
  have "outcomes (trace (validateElementFromData sample_engine open_manager (js ''locator.yaml''))) =
      map (\<lambda>(n, d). spec_outcome sample_engine (Page 1) d) sample_elements"
    using validate_one_outcome_per_assertion [OF p r y e] by blast
  with p r y n s show ?thesis
    by simp
qed

text \<open>
  C4. For an element that resolves, is visible and has a text content, the iteration
  reports \<open>Matched\<close> when the trimmed text equals the expected text and \<open>TextMismatch\<close>
  otherwise. Trimming splits the text into leading white space, the trimmed text and trailing
  white space, and the trimmed text neither starts nor ends with white space: nothing inside
  the text is removed. So \<^verbatim>\<open>" Create Your Account "\<close> matches \<^verbatim>\<open>"Create Your Account"\<close>, and
  \<^verbatim>\<open>"Create  Your Account"\<close> with its doubled blank does not.
\<close>

theorem validate_text_trim_exact:
  assumes "locator_first E p (locator d) = Inr el" and "isVisible E el = Inr True"
    and "textContent E el = Inr (Some s)"
  shows "outcomes (snd (validate_element E p n d)) =
           [if trim s = expected_text d then Matched else TextMismatch] \<and>
         fst (validate_element E p n d) = (trim s = expected_text d) \<and>
         (\<exists>pre post. s = pre @ trim s @ post \<and> (\<forall>c \<in> set pre. isWhiteSpace c) \<and>
            (\<forall>c \<in> set post. isWhiteSpace c)) \<and>
         (trim s \<noteq> [] \<longrightarrow> \<not> isWhiteSpace (hd (trim s)) \<and> \<not> isWhiteSpace (last (trim s))) \<and>
         (s = js '' Create Your Account '' \<and> expected_text d = js ''Create Your Account'' \<longrightarrow>
            outcomes (snd (validate_element E p n d)) = [Matched]) \<and>
         (s = js ''Create  Your Account'' \<and> expected_text d = js ''Create Your Account'' \<longrightarrow>
            outcomes (snd (validate_element E p n d)) = [TextMismatch])"
proof -
  have so: "spec_outcome E p d = (if trim s = expected_text d then Matched else TextMismatch)"
    using assms by (simp add: spec_outcome_def actualTextOf_Some)
  have 1: "outcomes (snd (validate_element E p n d)) =
           [if trim s = expected_text d then Matched else TextMismatch]"
    unfolding validate_element_outcomes so ..
  have 2: "fst (validate_element E p n d) = (trim s = expected_text d)"
    unfolding validate_element_ok so by simp
  have 5: "s = js '' Create Your Account '' \<and> expected_text d = js ''Create Your Account'' \<longrightarrow>
            outcomes (snd (validate_element E p n d)) = [Matched]"
    unfolding 1 using trim_sample_padded by auto
  have 6: "s = js ''Create  Your Account'' \<and> expected_text d = js ''Create Your Account'' \<longrightarrow>
            outcomes (snd (validate_element E p n d)) = [TextMismatch]"
    unfolding 1 using trim_sample_inner by auto
  from 1 2 5 6 trim_decomposition [of s] trim_ends [of s] show ?thesis
    by blast
qed

theorem validate_text_trim_exact_witness:
  "locator_first sample_engine (Page 1) (js ''a.signup'') = Inr (Locator 1) \<and>
   isVisible sample_engine (Locator 1) = Inr True \<and>
   textContent sample_engine (Locator 1) = Inr (Some (js '' Create Your Account '')) \<and>
   outcomes (snd (validate_element sample_engine (Page 1) (js ''signup'')
     \<lparr>locator = js ''a.signup'', expected_text = js ''Create Your Account'', description = None\<rparr>)) =
     [Matched] \<and>
   locator_first sample_engine (Page 1) (js ''h1'') = Inr (Locator 2) \<and>
   isVisible sample_engine (Locator 2) = Inr True \<and>
   textContent sample_engine (Locator 2) = Inr (Some (js ''Create  Your Account'')) \<and>
   outcomes (snd (validate_element sample_engine (Page 1) (js ''headline'')
     \<lparr>locator = js ''h1'', expected_text = js ''Create Your Account'', description = None\<rparr>)) =
     [TextMismatch]"
proof -
  let ?d1 = "\<lparr>locator = js ''a.signup'', expected_text = js ''Create Your Account'',
              description = None\<rparr>"
  let ?d2 = "\<lparr>locator = js ''h1'', expected_text = js ''Create Your Account'',
              description = None\<rparr>"
  have l1: "locator_first sample_engine (Page 1) (locator ?d1) = Inr (Locator 1)"
    and v1: "isVisible sample_engine (Locator 1) = Inr True"
    and c1: "textContent sample_engine (Locator 1) = Inr (Some (js '' Create Your Account ''))"
    and l2: "locator_first sample_engine (Page 1) (locator ?d2) = Inr (Locator 2)"
    and v2: "isVisible sample_engine (Locator 2) = Inr True"
    and c2: "textContent sample_engine (Locator 2) = Inr (Some (js ''Create  Your Account''))"
    by (simp_all add: sample_engine_def)
  have m1: "outcomes (snd (validate_element sample_engine (Page 1) (js ''signup'') ?d1)) = [Matched]"
    using validate_text_trim_exact [OF l1 v1 c1, of "js ''signup''"]
    by (simp add: trim_def isWhiteSpace_def)
  have m2: "outcomes (snd (validate_element sample_engine (Page 1) (js ''headline'') ?d2)) =
      [TextMismatch]"
    using validate_text_trim_exact [OF l2 v2 c2, of "js ''headline''"]
    by (simp add: trim_def isWhiteSpace_def)
  from l1 v1 c1 l2 v2 c2 m1 m2 show ?thesis
    by simp
qed

text \<open>
  C5, as the claim states it, fails: a declaration without the \<^verbatim>\<open>elements\<close> key is not
  raised to the caller. On the sample engine the file \<^verbatim>\<open>nokey.yaml\<close> loads to a document
  without the key, and \<^verbatim>\<open>validateElementFromData\<close> returns \<^verbatim>\<open>false\<close>, the value it also
  returns when an element fails.
\<close>

theorem missing_elements_key_not_raised:
  "readFileSync sample_engine (js ''nokey.yaml'') = Inr (js ''nokey'') \<and>
   yaml_load sample_engine (js ''nokey'') = Inr (Some \<lparr>elements = None\<rparr>) \<and>
   result (validateElementFromData sample_engine open_manager (js ''nokey.yaml'')) = Inr False \<and>
   result (validateElementFromData sample_engine open_manager (js ''locator.yaml'')) = Inr False"
  by (simp add: sample_defs run_defs validate_defs)

text \<open>
  C5, amended. When the loaded declaration lacks the \<^verbatim>\<open>elements\<close> key, the error is created
  before the loop runs and is caught inside \<^verbatim>\<open>validateElementFromData\<close>: no element is
  evaluated, the only event is the error line, the fields are untouched and the method
  returns \<^verbatim>\<open>false\<close>.
\<close>

theorem missing_elements_key_returns_false:
  assumes "page m = Some p" and "readFileSync E f = Inr content"
    and "yaml_load E content = Inr (Some data)" and "elements data = None"
  shows "validateElementFromData E m f =
           (Inr False, m, [ConsoleError (ErrorValidating ElementsKeyMissing)])"
  using assms by (simp add: validateElementFromData_def validate_try_def)

theorem missing_elements_key_returns_false_witness:
  "page open_manager = Some (Page 1) \<and>
   readFileSync sample_engine (js ''nokey.yaml'') = Inr (js ''nokey'') \<and>
   yaml_load sample_engine (js ''nokey'') = Inr (Some \<lparr>elements = None\<rparr>) \<and>
   elements \<lparr>elements = None\<rparr> = None \<and>
   validateElementFromData sample_engine open_manager (js ''nokey.yaml'') =
     (Inr False, open_manager, [ConsoleError (ErrorValidating ElementsKeyMissing)])"
proof -
  have p: "page open_manager = Some (Page 1)"
    by (simp add: open_manager_def)
  have r: "readFileSync sample_engine (js ''nokey.yaml'') = Inr (js ''nokey'')"
    by (simp add: sample_engine_def)
  have y: "yaml_load sample_engine (js ''nokey'') = Inr (Some \<lparr>elements = None\<rparr>)"
    by (simp add: sample_engine_def)
  have e: "elements \<lparr>elements = None\<rparr> = None"
    by simp
  from missing_elements_key_returns_false [OF p r y e] p r y e show ?thesis
    by simp
qed

text \<open>
  C10. \<^verbatim>\<open>validateElementFromData\<close> throws if and only if the \<^verbatim>\<open>page\<close> field is \<^verbatim>\<open>null\<close>, and then
  it throws the page-not-initialized error and does nothing else. With a page it returns a
  boolean and leaves the fields alone; every exception inside its \<^verbatim>\<open>try\<close> (an unreadable
  file, YAML that does not load, an empty document, a missing \<^verbatim>\<open>elements\<close> key) is printed
  and becomes the value \<^verbatim>\<open>false\<close>. So does every per-element error: when the declaration
  loads and, for one of its elements, the selector resolution, the visibility query or the
  text query throws, the method returns \<^verbatim>\<open>false\<close>; and in general it returns \<^verbatim>\<open>false\<close> as soon
  as one element is not a visible element with the expected trimmed text.
\<close>

theorem validate_raises_iff_page_null:
  "(isl (result (validateElementFromData E m f)) \<longleftrightarrow> page m = None) \<and>
   (page m = None \<longrightarrow> validateElementFromData E m f = (Inl PageNotInitialized, m, [])) \<and>
   (\<forall>p. page m = Some p \<longrightarrow>
      state (validateElementFromData E m f) = m \<and>
      (\<forall>e. fst (validate_try E p f) = Inl e \<longrightarrow>
         validateElementFromData E m f =
           (Inr False, m, snd (validate_try E p f) @ [ConsoleError (ErrorValidating e)])) \<and>
      ((isl (readFileSync E f) \<or>
        (\<exists>content. readFileSync E f = Inr content \<and>
           (isl (yaml_load E content) \<or> yaml_load E content = Inr None \<or>
            (\<exists>data. yaml_load E content = Inr (Some data) \<and> elements data = None)))) \<longrightarrow>
       result (validateElementFromData E m f) = Inr False) \<and>
      (\<forall>content data es n d.
         readFileSync E f = Inr content \<and> yaml_load E content = Inr (Some data) \<and>
         elements data = Some es \<and> (n, d) \<in> set es \<and>
         (isl (locator_first E p (locator d)) \<or>
          (\<exists>el. locator_first E p (locator d) = Inr el \<and>
             (isl (isVisible E el) \<or>
              isVisible E el = Inr False \<or>
              isVisible E el = Inr True \<and>
                (isl (textContent E el) \<or>
                 (\<exists>tc. textContent E el = Inr tc \<and> actualTextOf tc \<noteq> expected_text d))))) \<longrightarrow>
         result (validateElementFromData E m f) = Inr False))"
proof -
  have 1: "isl (result (validateElementFromData E m f)) \<longleftrightarrow> page m = None"
    by (auto simp: validateElementFromData_def result_def split: option.splits sum.splits prod.splits)
  have 2: "page m = None \<longrightarrow> validateElementFromData E m f = (Inl PageNotInitialized, m, [])"
    by (simp add: validateElementFromData_def)
  have 3: "\<forall>e. fst (validate_try E p f) = Inl e \<longrightarrow>
         validateElementFromData E m f =
           (Inr False, m, snd (validate_try E p f) @ [ConsoleError (ErrorValidating e)])"
    if "page m = Some p" for p
    using that by (auto simp: validateElementFromData_def split: prod.splits)
  have 4: "(isl (readFileSync E f) \<or>
        (\<exists>content. readFileSync E f = Inr content \<and>
           (isl (yaml_load E content) \<or> yaml_load E content = Inr None \<or>
            (\<exists>data. yaml_load E content = Inr (Some data) \<and> elements data = None)))) \<longrightarrow>
       result (validateElementFromData E m f) = Inr False"
    if "page m = Some p" for p
    using that
    by (auto simp: validateElementFromData_def validate_try_def result_def isl_def
        split: option.splits sum.splits prod.splits)
  have 5: "result (validateElementFromData E m f) = Inr False"
    if pg: "page m = Some p" and r: "readFileSync E f = Inr content"
      and y: "yaml_load E content = Inr (Some data)" and e: "elements data = Some es"
      and el: "(n, d) \<in> set es"
      and bad: "isl (locator_first E p (locator d)) \<or>
          (\<exists>el. locator_first E p (locator d) = Inr el \<and>
             (isl (isVisible E el) \<or>
              isVisible E el = Inr False \<or>
              isVisible E el = Inr True \<and>
                (isl (textContent E el) \<or>
                 (\<exists>tc. textContent E el = Inr tc \<and> actualTextOf tc \<noteq> expected_text d))))"
    for p content data es n d
  proof -
    have "spec_outcome E p d \<noteq> Matched"
      using bad by (auto simp: spec_outcome_Matched isl_def)
    with el have "\<not> (\<forall>(n, d) \<in> set es. spec_outcome E p d = Matched)"
      by auto
    then show ?thesis
      by (simp add: validate_run [OF pg r y e] result_def validate_loop_verdict)
  qed
  from 1 2 3 4 5 show ?thesis
    by (simp add: validate_state) blast
qed

theorem validate_raises_iff_page_null_witness:
  "page new_manager = None \<and>
   validateElementFromData sample_engine new_manager (js ''locator.yaml'') =
     (Inl PageNotInitialized, new_manager, []) \<and>
   page open_manager = Some (Page 1) \<and>
   isl (readFileSync sample_engine (js ''missing.yaml'')) \<and>
   result (validateElementFromData sample_engine open_manager (js ''missing.yaml'')) = Inr False \<and>
   \<not> isl (result (validateElementFromData sample_engine open_manager (js ''locator.yaml''))) \<and>
   readFileSync sample_engine (js ''broken.yaml'') = Inr (js ''broken'') \<and>
   yaml_load sample_engine (js ''broken'') =
     Inr (Some \<lparr>elements = Some (take 1 (drop 1 sample_elements))\<rparr>) \<and>
   take 1 (drop 1 sample_elements) =
     [(js ''broken'', \<lparr>locator = js ''a[['', expected_text = js ''X'', description = None\<rparr>)] \<and>
   isl (locator_first sample_engine (Page 1) (js ''a[['')) \<and>
   result (validateElementFromData sample_engine open_manager (js ''broken.yaml'')) = Inr False"
proof -
  have n: "page new_manager = None"
    by (simp add: new_manager_def)
  have p: "page open_manager = Some (Page 1)"
    by (simp add: open_manager_def)
  have r: "isl (readFileSync sample_engine (js ''missing.yaml''))"
    by (simp add: sample_engine_def)
  let ?d = "\<lparr>locator = js ''a[['', expected_text = js ''X'', description = None\<rparr>"
  have rb: "readFileSync sample_engine (js ''broken.yaml'') = Inr (js ''broken'')"
    by (simp add: sample_engine_def)
  have yb: "yaml_load sample_engine (js ''broken'') =
      Inr (Some \<lparr>elements = Some (take 1 (drop 1 sample_elements))\<rparr>)"
    by (simp add: sample_engine_def)
  have eb: "elements \<lparr>elements = Some (take 1 (drop 1 sample_elements))\<rparr> =
      Some (take 1 (drop 1 sample_elements))"
    by simp
  have es: "take 1 (drop 1 sample_elements) = [(js ''broken'', ?d)]"
    by (simp add: sample_elements_def)
  have mem: "(js ''broken'', ?d) \<in> set (take 1 (drop 1 sample_elements))"
    unfolding es by simp
  have thr: "isl (locator_first sample_engine (Page 1) (locator ?d))"
    by (simp add: sample_engine_def)
  have old: "validateElementFromData sample_engine new_manager (js ''locator.yaml'') =
       (Inl PageNotInitialized, new_manager, []) \<and>
     result (validateElementFromData sample_engine open_manager (js ''missing.yaml'')) = Inr False \<and>
     \<not> isl (result (validateElementFromData sample_engine open_manager (js ''locator.yaml'')))"
    using validate_raises_iff_page_null [of sample_engine new_manager "js ''locator.yaml''"]
      validate_raises_iff_page_null [of sample_engine open_manager "js ''missing.yaml''"]
      validate_raises_iff_page_null [of sample_engine open_manager "js ''locator.yaml''"]
      n p r
    by simp
  have new: "result (validateElementFromData sample_engine open_manager (js ''broken.yaml'')) =
      Inr False"
    using validate_raises_iff_page_null [of sample_engine open_manager "js ''broken.yaml''"]
      p rb yb eb mem thr
    by blast
  from old new n p r rb yb es thr show ?thesis
    by simp
qed

text \<open>
  C2, as the claim states it, fails: a failure at the page-close step does skip the
  context-close and browser-close steps. With all three fields set and a page whose
  \<^verbatim>\<open>close()\<close> is rejected, \<^verbatim>\<open>teardown\<close> asks for the page to be closed, prints the error and
  returns; the context and the browser are never asked to close.
\<close>

theorem teardown_page_failure_skips_rest:
  "browserContext open_manager = Some (BrowserContext 1) \<and>
   browser open_manager = Some (Browser 1) \<and>
   closePage stuck_page_engine (Page 1) = Some 7 \<and>
   CloseContext (BrowserContext 1) \<notin> set (trace (teardown stuck_page_engine open_manager)) \<and>
   CloseBrowser (Browser 1) \<notin> set (trace (teardown stuck_page_engine open_manager)) \<and>
   trace (teardown stuck_page_engine open_manager) =
     [ClosePage (Page 1), ConsoleError (TeardownErrorLine (Thrown 7))]"
  by (simp add: teardown_defs sample_defs run_defs)

text \<open>
  C2, amended. \<^verbatim>\<open>teardown\<close> never throws. It releases in the order page, context, browser:
  the releases it attempts are an initial part of the releases owed for the fields that are
  set. If none of them fails, all are attempted and the last line says the browser was
  closed. A release that fails is the last one attempted, and its error is printed with
  \<^verbatim>\<open>console.error\<close> as the last event; in particular, when closing the page fails nothing
  else is attempted and the fields stay as they were.
\<close>

theorem teardown_stops_at_first_failure:
  "result (teardown E m) = Inr () \<and>
   prefix (releases (trace (teardown E m))) (due_releases m) \<and>
   ((\<forall>ev \<in> set (due_releases m). \<not> release_fails E ev) \<longrightarrow>
      releases (trace (teardown E m)) = due_releases m \<and>
      last (trace (teardown E m)) = ConsoleLog BrowserClosedLine) \<and>
   (\<forall>ev \<in> set (releases (trace (teardown E m))). release_fails E ev \<longrightarrow>
      last (releases (trace (teardown E m))) = ev \<and>
      (\<exists>x. last (trace (teardown E m)) = ConsoleError (TeardownErrorLine (Thrown x)))) \<and>
   (\<forall>p x. page m = Some p \<and> closePage E p = Some x \<longrightarrow>
      teardown E m = (Inr (), m, [ClosePage p, ConsoleError (TeardownErrorLine (Thrown x))]))"
  using teardown_result [of E m] teardown_releases_prefix [of E m] teardown_complete [of m E]
    teardown_failure_last [of E m] teardown_page_rejected [of m _ E]
  by (simp add: result_def)

theorem teardown_stops_at_first_failure_witness:
  "due_releases open_manager =
     [ClosePage (Page 1), CloseContext (BrowserContext 1), CloseBrowser (Browser 1)] \<and>
   \<not> release_fails sample_engine (ClosePage (Page 1)) \<and>
   \<not> release_fails sample_engine (CloseContext (BrowserContext 1)) \<and>
   \<not> release_fails sample_engine (CloseBrowser (Browser 1)) \<and>
   result (teardown sample_engine open_manager) = Inr () \<and>
   releases (trace (teardown sample_engine open_manager)) =
     [ClosePage (Page 1), CloseContext (BrowserContext 1), CloseBrowser (Browser 1)] \<and>
   last (trace (teardown sample_engine open_manager)) = ConsoleLog BrowserClosedLine \<and>
   page open_manager = Some (Page 1) \<and> closePage stuck_page_engine (Page 1) = Some 7 \<and>
   teardown stuck_page_engine open_manager =
     (Inr (), open_manager, [ClosePage (Page 1), ConsoleError (TeardownErrorLine (Thrown 7))])"
proof -
  have d: "due_releases open_manager =
      [ClosePage (Page 1), CloseContext (BrowserContext 1), CloseBrowser (Browser 1)]"
    by (simp add: due_releases_def open_manager_def)
  have ok: "\<forall>ev \<in> set (due_releases open_manager). \<not> release_fails sample_engine ev"
    unfolding d by (simp add: release_fails_def sample_engine_def)
  have p: "page open_manager = Some (Page 1)"
    by (simp add: open_manager_def)
  have x: "closePage stuck_page_engine (Page 1) = Some 7"
    by (simp add: stuck_page_engine_def)
  have a: "result (teardown sample_engine open_manager) = Inr () \<and>
      releases (trace (teardown sample_engine open_manager)) = due_releases open_manager \<and>
      last (trace (teardown sample_engine open_manager)) = ConsoleLog BrowserClosedLine"
    using teardown_stops_at_first_failure [of sample_engine open_manager] ok by blast
  have b: "teardown stuck_page_engine open_manager =
      (Inr (), open_manager, [ClosePage (Page 1), ConsoleError (TeardownErrorLine (Thrown 7))])"
    using teardown_stops_at_first_failure [of stuck_page_engine open_manager] p x by blast
  from a b d ok p x show ?thesis
    by (simp add: release_fails_def sample_engine_def)
qed

text \<open>
  C8, as the claim states it, fails in its second half: \<^verbatim>\<open>teardown\<close> can complete with a field
  still set. With a page whose \<^verbatim>\<open>close()\<close> is rejected, \<^verbatim>\<open>teardown\<close> returns normally and all
  three fields are what they were.
\<close>

theorem teardown_failure_leaves_fields:
  "result (teardown stuck_page_engine open_manager) = Inr () \<and>
   page (state (teardown stuck_page_engine open_manager)) = Some (Page 1) \<and>
   browserContext (state (teardown stuck_page_engine open_manager)) = Some (BrowserContext 1) \<and>
   browser (state (teardown stuck_page_engine open_manager)) = Some (Browser 1)"
  by (simp add: teardown_defs sample_defs run_defs)

text \<open>
  C8, amended. A new manager has nested fields (a page only with a context, a context only
  with a browser), and \<^verbatim>\<open>openUrl\<close>, \<^verbatim>\<open>teardown\<close> and \<^verbatim>\<open>validateElementFromData\<close> each take nested
  fields to nested fields, so the fields are nested between any two operations. After
  \<^verbatim>\<open>teardown\<close> all three fields are \<^verbatim>\<open>null\<close> if and only if none of the releases owed fails.
\<close>

theorem session_nesting_invariant:
  "nested new_manager \<and>
   (nested m \<longrightarrow>
      nested (state (openUrl E m u bt)) \<and> nested (state (teardown E m)) \<and>
      nested (state (validateElementFromData E m f))) \<and>
   (all_null (state (teardown E m)) \<longleftrightarrow> (\<forall>ev \<in> set (due_releases m). \<not> release_fails E ev))"
  using openUrl_nested [of m E u bt] teardown_nested [of m E]
    teardown_all_null_iff [of E m] teardown_no_failure [of m E]
  by (auto simp: validate_state nested_def new_manager_def)

theorem session_nesting_invariant_witness:
  "nested open_manager \<and>
   \<not> release_fails sample_engine (ClosePage (Page 1)) \<and>
   \<not> release_fails sample_engine (CloseContext (BrowserContext 1)) \<and>
   \<not> release_fails sample_engine (CloseBrowser (Browser 1)) \<and>
   release_fails stuck_page_engine (ClosePage (Page 1)) \<and>
   nested (state (openUrl sample_engine open_manager (js ''https://tophat.com/'') (js ''opera''))) \<and>
   nested (state (teardown sample_engine open_manager)) \<and>
   nested (state (validateElementFromData sample_engine open_manager (js ''one.yaml''))) \<and>
   all_null (state (teardown sample_engine open_manager)) \<and>
   \<not> all_null (state (teardown stuck_page_engine open_manager))"
proof -
  have n: "nested open_manager"
    by (simp add: nested_def open_manager_def)
  have ok: "\<forall>ev \<in> set (due_releases open_manager). \<not> release_fails sample_engine ev"
    by (simp add: due_releases_def open_manager_def release_fails_def sample_engine_def)
  have ko: "\<not> (\<forall>ev \<in> set (due_releases open_manager). \<not> release_fails stuck_page_engine ev)"
    by (simp add: due_releases_def open_manager_def release_fails_def stuck_page_engine_def)
  from session_nesting_invariant [of open_manager sample_engine "js ''https://tophat.com/''"
      "js ''opera''" "js ''one.yaml''"]
    session_nesting_invariant [of open_manager stuck_page_engine "js ''https://tophat.com/''"
      "js ''opera''" "js ''one.yaml''"] n ok ko
  have "nested (state (openUrl sample_engine open_manager (js ''https://tophat.com/'') (js ''opera''))) \<and>
      nested (state (teardown sample_engine open_manager)) \<and>
      nested (state (validateElementFromData sample_engine open_manager (js ''one.yaml''))) \<and>
      all_null (state (teardown sample_engine open_manager)) \<and>
      \<not> all_null (state (teardown stuck_page_engine open_manager))"
    by blast
  with n show ?thesis
    by (simp add: release_fails_def sample_engine_def stuck_page_engine_def)
qed

end
